theory Spec2Isabelle
  imports Main "HOL-Library.Word"
begin

section \<open>The GitLab target manager of sparrow (pkg/sparrow/targets/gitlab.go)\<close>

subsection \<open>Time\<close>

text \<open>
  A \<^verbatim>\<open>time.Time\<close> is modelled by the instant it denotes, an integer number of
  nanoseconds. A \<^verbatim>\<open>time.Duration\<close> is Go's \<^verbatim>\<open>int64\<close> count of nanoseconds: a
  64-bit word read as two's complement, so that the unary minus of the source wraps
  around as it does in Go. \<open>Add\<close> and \<open>After\<close> are the two methods of
  \<^verbatim>\<open>time.Time\<close> the manager calls.
\<close>

type_synonym Time = int

type_synonym Duration = "64 word"

definition Add :: "Time \<Rightarrow> Duration \<Rightarrow> Time" where
  "Add t d = t + sint d"

definition After :: "Time \<Rightarrow> Time \<Rightarrow> bool" where
  "After t u = (u < t)"

subsection \<open>Data\<close>

text \<open>Go's \<^verbatim>\<open>error\<close> values: only their message is kept.\<close>

datatype error = Error string

text \<open>\<^verbatim>\<open>checks.GlobalTarget\<close>: the liveness record of one sparrow instance.\<close>

record GlobalTarget =
  Url :: string
  LastSeen :: Time

text \<open>\<^verbatim>\<open>gitlab.File\<close>, with the fields \<^verbatim>\<open>updateRegistration\<close> fills in.\<close>

record File =
  Branch :: string
  AuthorEmail :: string
  AuthorName :: string
  CommitMessage :: string
  Content :: GlobalTarget

text \<open>
  \<^verbatim>\<open>context.Context\<close>: whether the channel of \<^verbatim>\<open>ctx.Done()\<close> is closed, and the
  value of \<^verbatim>\<open>ctx.Err()\<close>.
\<close>

record Context =
  ctxDone :: bool
  ctxErr :: "error option"

text \<open>
  The interface \<^verbatim>\<open>gitlab.Gitlab\<close> is an external collaborator. It is modelled, as the
  generated mock of the repository does, by one answer per method: what the client
  returns when the manager calls it. The remote store changes between calls, so the
  client is an argument of every operation rather than a field of the manager.
\<close>

record Gitlab =
  FetchFiles :: "error + GlobalTarget list"
  PutFile :: "File \<Rightarrow> error option"
  PostFile :: "File \<Rightarrow> error option"

text \<open>The calls an operation makes on the client, in the order in which it makes them.\<close>

datatype call = FetchFilesCall | PutFileCall File | PostFileCall File

text \<open>
  \<^verbatim>\<open>gitlabTargetManager\<close>. The channel \<^verbatim>\<open>done\<close> carries values of
  \<^verbatim>\<open>struct{}\<close>, so its content is the number of values buffered in it; its capacity
  is the \<open>1\<close> of \<^verbatim>\<open>make(chan struct{}, 1)\<close>. The lock \<^verbatim>\<open>mu\<close> has no field: every
  operation below runs from taking the lock to releasing it as one step.
\<close>

record gitlabTargetManager =
  targets :: "GlobalTarget list"
  doneChan :: nat
  name :: string
  checkInterval :: Duration
  unhealthyThreshold :: Duration
  registrationInterval :: Duration
  registered :: bool

definition doneCap :: nat where
  "doneCap = 1"

definition NewGitlabManager ::
    "string \<Rightarrow> Duration \<Rightarrow> Duration \<Rightarrow> Duration \<Rightarrow> gitlabTargetManager" where
  "NewGitlabManager nm checkIv unhealthyThr regIv =
     \<lparr>targets = [], doneChan = 0, name = nm, checkInterval = checkIv,
      unhealthyThreshold = unhealthyThr, registrationInterval = regIv,
      registered = False\<rparr>"

definition GetTargets :: "gitlabTargetManager \<Rightarrow> GlobalTarget list" where
  "GetTargets t = targets t"

definition Registered :: "gitlabTargetManager \<Rightarrow> bool" where
  "Registered t = registered t"

subsection \<open>refreshTargets\<close>

text \<open>
  The filter loop of \<^verbatim>\<open>refreshTargets\<close>. The source reads \<^verbatim>\<open>time.Now()\<close> once per
  record: \<open>now i\<close> is the reading made for the record at index \<open>i\<close>. A record is
  skipped when \<^verbatim>\<open>time.Now().Add(-t.unhealthyThreshold).After(target.LastSeen)\<close>, and
  appended to \<^verbatim>\<open>healthyTargets\<close> otherwise.
\<close>

fun healthyLoop ::
    "Duration \<Rightarrow> (nat \<Rightarrow> Time) \<Rightarrow> nat \<Rightarrow> GlobalTarget list \<Rightarrow> GlobalTarget list
      \<Rightarrow> GlobalTarget list" where
  "healthyLoop thr now i [] healthyTargets = healthyTargets"
| "healthyLoop thr now i (target # rest) healthyTargets =
     (if After (Add (now i) (- thr)) (LastSeen target)
      then healthyLoop thr now (Suc i) rest healthyTargets
      else healthyLoop thr now (Suc i) rest (healthyTargets @ [target]))"

text \<open>
  \<^verbatim>\<open>refreshTargets\<close> returns the error (\<open>None\<close> is Go's \<^verbatim>\<open>nil\<close>), the manager
  after the call and the calls made on the client.
\<close>

definition refreshTargets ::
    "Context \<Rightarrow> Gitlab \<Rightarrow> (nat \<Rightarrow> Time) \<Rightarrow> gitlabTargetManager
      \<Rightarrow> error option \<times> gitlabTargetManager \<times> call list" where
  "refreshTargets ctx g now t =
     (case FetchFiles g of
        Inl err \<Rightarrow> (Some err, t, [FetchFilesCall])
      | Inr fetched \<Rightarrow>
          (None,
           t\<lparr>targets := healthyLoop (unhealthyThreshold t) now 0 fetched []\<rparr>,
           [FetchFilesCall]))"

subsection \<open>updateRegistration\<close>

text \<open>
  \<^verbatim>\<open>updateRegistration\<close> builds the file from the name of the instance and the reading
  \<open>now\<close> of \<^verbatim>\<open>time.Now().UTC()\<close>, then updates the file with \<^verbatim>\<open>PutFile\<close> when the
  instance is registered and creates it with \<^verbatim>\<open>PostFile\<close> when it is not.
\<close>

definition updateRegistration ::
    "Context \<Rightarrow> Gitlab \<Rightarrow> Time \<Rightarrow> gitlabTargetManager
      \<Rightarrow> error option \<times> gitlabTargetManager \<times> call list" where
  "updateRegistration ctx g now t =
     (let f = \<lparr>Branch = ''main'', AuthorEmail = name t @ ''@sparrow'', AuthorName = name t,
               CommitMessage = [],
               Content = \<lparr>Url = ''https://'' @ name t, LastSeen = now\<rparr>\<rparr>
      in if Registered t
         then (let f = f\<lparr>CommitMessage := ''Updated registration''\<rparr>
               in case PutFile g f of
                    Some err \<Rightarrow> (Some err, t, [PutFileCall f])
                  | None \<Rightarrow> (None, t, [PutFileCall f]))
         else (let f = f\<lparr>CommitMessage := ''Initial registration''\<rparr>
               in case PostFile g f of
                    Some err \<Rightarrow> (Some err, t, [PostFileCall f])
                  | None \<Rightarrow> (None, t\<lparr>registered := True\<rparr>, [PostFileCall f])))"

subsection \<open>Shutdown\<close>

text \<open>
  A call either returns a value or blocks: a send on a buffered channel that is full
  waits for a receiver. \<^verbatim>\<open>Reconcile\<close> is the only receiver of \<^verbatim>\<open>done\<close>, so a send
  that blocks inside \<^verbatim>\<open>Reconcile\<close> itself never proceeds.
\<close>

datatype 'a outcome = Returns 'a | Blocks

text \<open>
  \<^verbatim>\<open>Shutdown\<close> clears \<^verbatim>\<open>registered\<close>, sends on \<^verbatim>\<open>done\<close> and returns \<^verbatim>\<open>nil\<close>. The
  manager is returned in both cases: when the send blocks, the flag is cleared already.
\<close>

definition Shutdown ::
    "Context \<Rightarrow> gitlabTargetManager \<Rightarrow> error option outcome \<times> gitlabTargetManager" where
  "Shutdown ctx t =
     (let t1 = t\<lparr>registered := False\<rparr>
      in if doneChan t1 < doneCap
         then (Returns None, t1\<lparr>doneChan := Suc (doneChan t1)\<rparr>)
         else (Blocks, t1))"

subsection \<open>Timers\<close>

text \<open>
  A \<^verbatim>\<open>time.Timer\<close> fires once: \<open>Some deadline\<close> is a timer that sends on its channel
  \<^verbatim>\<open>C\<close> at the deadline (from then on the value waits in the channel), \<open>None\<close> is a
  timer whose value has been received and that has not been reset. Such a timer never
  sends again.
\<close>

type_synonym Timer = "Time option"

definition NewTimer :: "Time \<Rightarrow> Duration \<Rightarrow> Timer" where
  "NewTimer at d = Some (Add at d)"

definition Reset :: "Time \<Rightarrow> Duration \<Rightarrow> Timer" where
  "Reset at d = Some (Add at d)"

definition timerReady :: "Time \<Rightarrow> Timer \<Rightarrow> bool" where
  "timerReady at tm = (case tm of None \<Rightarrow> False | Some deadline \<Rightarrow> deadline \<le> at)"

subsection \<open>Reconcile\<close>

text \<open>
  The local state of \<^verbatim>\<open>Reconcile\<close>: the manager, the two timers, and where the loop
  is: running, returned after a receive from \<^verbatim>\<open>done\<close> (\<open>Ended\<close>), returned after a
  failed \<^verbatim>\<open>Shutdown\<close> (\<open>ShutdownFailed\<close>), or blocked in a call for ever.
\<close>

datatype status = Running | Ended | ShutdownFailed | Blocked

record Reconcile_state =
  mgr :: gitlabTargetManager
  checkTimer :: Timer
  registrationTimer :: Timer
  status :: status

text \<open>
  What the world supplies to one iteration of the loop: the instant at which the
  \<^verbatim>\<open>select\<close> statement returns, the context, the answers of the client, the readings of
  \<^verbatim>\<open>time.Now()\<close> made by the handler, and the instant at which the handler resets its
  timer.
\<close>

record env =
  wake :: Time
  envCtx :: Context
  client :: Gitlab
  timeNow :: "nat \<Rightarrow> Time"
  resetAt :: Time

text \<open>The four cases of the \<^verbatim>\<open>select\<close> statement, in the order of the source.\<close>

datatype select_case = CaseCtxDone | CaseDone | CaseCheckTimer | CaseRegistrationTimer

text \<open>What one iteration does that is visible outside the manager.\<close>

datatype action = Remote call | ShutdownCall

definition Reconcile_start :: "Time \<Rightarrow> gitlabTargetManager \<Rightarrow> Reconcile_state" where
  "Reconcile_start at t =
     \<lparr>mgr = t, checkTimer = NewTimer at (checkInterval t),
      registrationTimer = NewTimer at (registrationInterval t), status = Running\<rparr>"

text \<open>
  A case can be chosen when its channel is ready: the channel of \<^verbatim>\<open>ctx.Done()\<close> is
  closed, \<^verbatim>\<open>done\<close> holds a value, or the timer has fired. When several cases are
  ready, Go chooses one of them at random.
\<close>

definition caseReady :: "env \<Rightarrow> select_case \<Rightarrow> Reconcile_state \<Rightarrow> bool" where
  "caseReady e c s =
     (case c of
        CaseCtxDone \<Rightarrow> ctxDone (envCtx e)
      | CaseDone \<Rightarrow> 0 < doneChan (mgr s)
      | CaseCheckTimer \<Rightarrow> timerReady (wake e) (checkTimer s)
      | CaseRegistrationTimer \<Rightarrow> timerReady (wake e) (registrationTimer s))"

definition onCtxDone :: "env \<Rightarrow> Reconcile_state \<Rightarrow> Reconcile_state \<times> action list" where
  "onCtxDone e s =
     (case ctxErr (envCtx e) of
        None \<Rightarrow> (s, [])
      | Some err \<Rightarrow>
          (case Shutdown (envCtx e) (mgr s) of
             (Blocks, t') \<Rightarrow> (s\<lparr>mgr := t', status := Blocked\<rparr>, [ShutdownCall])
           | (Returns (Some err'), t') \<Rightarrow>
               (s\<lparr>mgr := t', status := ShutdownFailed\<rparr>, [ShutdownCall])
           | (Returns None, t') \<Rightarrow> (s\<lparr>mgr := t'\<rparr>, [ShutdownCall])))"

definition onDone :: "env \<Rightarrow> Reconcile_state \<Rightarrow> Reconcile_state \<times> action list" where
  "onDone e s =
     (s\<lparr>mgr := (mgr s)\<lparr>doneChan := doneChan (mgr s) - 1\<rparr>, status := Ended\<rparr>, [])"

definition onCheckTimer :: "env \<Rightarrow> Reconcile_state \<Rightarrow> Reconcile_state \<times> action list" where
  "onCheckTimer e s =
     (case refreshTargets (envCtx e) (client e) (timeNow e) (mgr s) of
        (Some err, t', calls) \<Rightarrow>
          (s\<lparr>mgr := t', checkTimer := None\<rparr>, map Remote calls)
      | (None, t', calls) \<Rightarrow>
          (s\<lparr>mgr := t', checkTimer := Reset (resetAt e) (checkInterval t')\<rparr>,
           map Remote calls))"

definition onRegistrationTimer ::
    "env \<Rightarrow> Reconcile_state \<Rightarrow> Reconcile_state \<times> action list" where
  "onRegistrationTimer e s =
     (case updateRegistration (envCtx e) (client e) (timeNow e 0) (mgr s) of
        (Some err, t', calls) \<Rightarrow>
          (s\<lparr>mgr := t', registrationTimer := None\<rparr>, map Remote calls)
      | (None, t', calls) \<Rightarrow>
          (s\<lparr>mgr := t',
             registrationTimer := Reset (resetAt e) (registrationInterval t')\<rparr>,
           map Remote calls))"

text \<open>
  One iteration of the loop with the case the \<^verbatim>\<open>select\<close> statement chose: \<open>None\<close>
  when the loop is not running or the case is not ready. Receiving from the channel of
  a timer empties it, so a handler that does not reach \<^verbatim>\<open>Reset\<close> (the \<^verbatim>\<open>continue\<close> of
  the source) leaves its timer at \<open>None\<close>.
\<close>

definition select_step ::
    "env \<Rightarrow> select_case \<Rightarrow> Reconcile_state \<Rightarrow> (Reconcile_state \<times> action list) option" where
  "select_step e c s =
     (if status s = Running \<and> caseReady e c s
      then Some (case c of
                   CaseCtxDone \<Rightarrow> onCtxDone e s
                 | CaseDone \<Rightarrow> onDone e s
                 | CaseCheckTimer \<Rightarrow> onCheckTimer e s
                 | CaseRegistrationTimer \<Rightarrow> onRegistrationTimer e s)
      else None)"

text \<open>A run of the loop: the iterations of a schedule one after the other.\<close>

fun run ::
    "(env \<times> select_case) list \<Rightarrow> Reconcile_state \<Rightarrow> (Reconcile_state \<times> action list) option"
  where
  "run [] s = Some (s, [])"
| "run ((e, c) # sched) s =
     (case select_step e c s of
        None \<Rightarrow> None
      | Some (s1, acts1) \<Rightarrow>
          (case run sched s1 of
             None \<Rightarrow> None
           | Some (s2, acts2) \<Rightarrow> Some (s2, acts1 @ acts2)))"

subsection \<open>The staleness test in the words of the specification\<close>

text \<open>
  The specification discards a record when \<open>now - lastSeen > unhealthyThreshold\<close>. This
  definition follows those words; the source computes
  \<^verbatim>\<open>now.Add(-unhealthyThreshold).After(lastSeen)\<close> instead (see \<open>healthyLoop\<close>).
\<close>

definition discarded_spec :: "Duration \<Rightarrow> Time \<Rightarrow> GlobalTarget \<Rightarrow> bool" where
  "discarded_spec thr now target = (now - LastSeen target > sint thr)"

text \<open>\<^verbatim>\<open>math.MinInt64\<close>, the one duration whose negation wraps around to itself.\<close>

definition minDuration :: Duration where
  "minDuration = - (2 ^ 63)"

text \<open>A clock that does not advance while one refresh runs: every reading is \<open>at\<close>.\<close>

definition constClock :: "Time \<Rightarrow> nat \<Rightarrow> Time" where
  "constClock at i = at"

subsection \<open>Concrete inputs\<close>

text \<open>
  An instance with a check interval of 30 s, a threshold of 60 s and a registration
  interval of 300 s, started at instant 0; records seen 10 s, 120 s and exactly 60 s
  before the instant 100 s; a client that answers and one that fails.
\<close>

definition exMgr :: gitlabTargetManager where
  "exMgr = NewGitlabManager ''sparrow.telekom.com'' 30000000000 60000000000 300000000000"

definition exNow :: Time where
  "exNow = 100000000000"

definition exFresh :: GlobalTarget where
  "exFresh = \<lparr>Url = ''a'', LastSeen = 90000000000\<rparr>"

definition exStale :: GlobalTarget where
  "exStale = \<lparr>Url = ''b'', LastSeen = - 20000000000\<rparr>"

definition exBoundary :: GlobalTarget where
  "exBoundary = \<lparr>Url = ''c'', LastSeen = 40000000000\<rparr>"

text \<open>
  A clock that advances by one nanosecond from one reading to the next, a client whose
  store returns the record at the boundary twice, and an instance whose threshold is
  \<^verbatim>\<open>math.MinInt64\<close>.
\<close>

definition exClockTick :: "nat \<Rightarrow> Time" where
  "exClockTick i = exNow + int i"

definition exClientTwice :: Gitlab where
  "exClientTwice =
     \<lparr>FetchFiles = Inr [exBoundary, exBoundary],
      PutFile = (\<lambda>f. None), PostFile = (\<lambda>f. None)\<rparr>"

definition exMgrMin :: gitlabTargetManager where
  "exMgrMin = NewGitlabManager ''sparrow.telekom.com'' 30000000000 minDuration 300000000000"

text \<open>The same instance with a cached list and its registration done.\<close>

definition exCached :: gitlabTargetManager where
  "exCached = exMgr\<lparr>targets := [exFresh], registered := True\<rparr>"

definition exCtx :: Context where
  "exCtx = \<lparr>ctxDone = False, ctxErr = None\<rparr>"

definition exCancelled :: Context where
  "exCancelled = \<lparr>ctxDone = True, ctxErr = Some (Error ''context canceled'')\<rparr>"

definition exClientOk :: Gitlab where
  "exClientOk =
     \<lparr>FetchFiles = Inr [exFresh, exStale, exBoundary],
      PutFile = (\<lambda>f. None), PostFile = (\<lambda>f. None)\<rparr>"

definition exClientDown :: Gitlab where
  "exClientDown =
     \<lparr>FetchFiles = Inl (Error ''request failed''),
      PutFile = (\<lambda>f. Some (Error ''request failed'')),
      PostFile = (\<lambda>f. Some (Error ''request failed''))\<rparr>"

definition exLoop :: Reconcile_state where
  "exLoop = Reconcile_start 0 exMgr"

text \<open>The loop after \<^verbatim>\<open>Shutdown\<close> has been called on the manager from outside.\<close>

definition exShut :: gitlabTargetManager where
  "exShut = snd (Shutdown exCtx exMgr)"

definition exLoopShut :: Reconcile_state where
  "exLoopShut = exLoop\<lparr>mgr := exShut\<rparr>"

text \<open>The loop of the instance that has registered.\<close>

definition exLoopCached :: Reconcile_state where
  "exLoopCached = Reconcile_start 0 exCached"

text \<open>
  Iterations: at 30 s and at 300 s with the client down, at 30 s with the client up, at
  1 s (before any timer fires), and at 30 s with the context cancelled. A handler
  takes one second before it resets its timer.
\<close>

definition exEnvDown :: env where
  "exEnvDown =
     \<lparr>wake = 30000000000, envCtx = exCtx, client = exClientDown,
      timeNow = constClock 30000000000, resetAt = 31000000000\<rparr>"

definition exEnvDownLate :: env where
  "exEnvDownLate =
     \<lparr>wake = 300000000000, envCtx = exCtx, client = exClientDown,
      timeNow = constClock 300000000000, resetAt = 301000000000\<rparr>"

definition exEnvOk :: env where
  "exEnvOk =
     \<lparr>wake = 30000000000, envCtx = exCtx, client = exClientOk,
      timeNow = constClock 30000000000, resetAt = 31000000000\<rparr>"


definition exEnvCancelled :: env where
  "exEnvCancelled =
     \<lparr>wake = 30000000000, envCtx = exCancelled, client = exClientOk,
      timeNow = constClock 30000000000, resetAt = 31000000000\<rparr>"

section \<open>Properties\<close>

subsection \<open>Durations and the staleness test\<close>

text \<open>
  The negation of a duration is the negation of its value for every duration but
  \<^verbatim>\<open>math.MinInt64\<close>. For those, the test of the source and the test in the words of
  the specification agree.
\<close>

lemma sint_minDuration: "sint minDuration = - (2 ^ 63)"
  by (simp add: minDuration_def)

lemma sint_eq_min_iff: "sint (d :: Duration) = - (2 ^ 63) \<longleftrightarrow> d = minDuration"
proof
  assume "sint d = - (2 ^ 63)"
  then have "sint d = sint minDuration" by (simp add: sint_minDuration)
  then show "d = minDuration" by (rule signed_word_eqI)
next
  assume "d = minDuration"
  then show "sint d = - (2 ^ 63)" by (simp add: sint_minDuration)
qed

lemma sint_neg_Duration:
  assumes "d \<noteq> minDuration"
  shows "sint (- d) = - sint (d :: Duration)"
proof -
  have lo: "- (2 ^ 63) \<le> sint d" using sint_ge [of d] by simp
  have hi: "sint d < 2 ^ 63" using sint_lt [of d] by simp
  have ne: "sint d \<noteq> - (2 ^ 63)" using assms sint_eq_min_iff [of d] by blast
  have "sint (- d) = signed_take_bit 63 (- sint d)"
    by (simp add: sint_word_minus)
  also have "\<dots> = - sint d"
    using lo hi ne by (intro signed_take_bit_int_eq_self) simp_all
  finally show ?thesis .
qed

lemma Add_neg: "d \<noteq> minDuration \<Longrightarrow> Add at (- d) = at - sint d"
  by (simp add: Add_def sint_neg_Duration)

lemma skip_iff_discarded_spec:
  "thr \<noteq> minDuration \<Longrightarrow> After (Add at (- thr)) (LastSeen r) = discarded_spec thr at r"
  by (auto simp: Add_neg After_def discarded_spec_def)

text \<open>
  The filter loop appends to its accumulator the records it does not skip, in their
  order: with a clock that stands still it is \<open>filter\<close>, with any clock it is a filter
  on the indexed records.
\<close>

lemma healthyLoop_constClock:
  "healthyLoop thr (constClock at) i fetched acc =
     acc @ filter (\<lambda>r. \<not> After (Add at (- thr)) (LastSeen r)) fetched"
  by (induction fetched arbitrary: i acc) (simp_all add: constClock_def)

lemma healthyLoop_any_clock:
  "healthyLoop thr now i fetched acc =
     acc @ map snd (filter (\<lambda>(k, r). \<not> After (Add (now k) (- thr)) (LastSeen r))
                           (enumerate i fetched))"
  by (induction fetched arbitrary: i acc) simp_all

lemma healthy_test: "(\<not> After (Add at (- thr)) ls) = (Add at (- thr) \<le> ls)"
  by (auto simp: After_def)

lemma refreshTargets_Inr:
  "FetchFiles g = Inr fetched \<Longrightarrow>
   refreshTargets ctx g now t =
     (None, t\<lparr>targets := healthyLoop (unhealthyThreshold t) now 0 fetched []\<rparr>, [FetchFilesCall])"
  by (simp add: refreshTargets_def)

subsection \<open>A failed refresh\<close>

text \<open>
  Claim C2. For every manager, when the client's \<^verbatim>\<open>FetchFiles\<close> fails during a
  refresh, \<^verbatim>\<open>refreshTargets\<close> returns that error and leaves the manager as it was; in
  particular \<^verbatim>\<open>GetTargets()\<close> answers after the call what it answered before it.
\<close>

theorem refreshTargets_failure_keeps_targets:
  assumes "FetchFiles g = Inl err"
  shows "fst (refreshTargets ctx g now t) = Some err
       \<and> fst (snd (refreshTargets ctx g now t)) = t
       \<and> GetTargets (fst (snd (refreshTargets ctx g now t))) = GetTargets t"
  using assms by (simp add: refreshTargets_def)

text \<open>
  At a concrete input: the client is down and the manager holds one cached record, which
  it still holds after the failed refresh.
\<close>

theorem refreshTargets_failure_keeps_targets_witness:
  "FetchFiles exClientDown = Inl (Error ''request failed'')
   \<and> fst (refreshTargets exCtx exClientDown (constClock exNow) exCached)
       = Some (Error ''request failed'')
   \<and> GetTargets (fst (snd (refreshTargets exCtx exClientDown (constClock exNow) exCached)))
       = [exFresh]"
proof -
  have h: "FetchFiles exClientDown = Inl (Error ''request failed'')"
    by (simp add: exClientDown_def)
  have g: "GetTargets exCached = [exFresh]"
    by (simp add: GetTargets_def exCached_def)
  show ?thesis
    using h g refreshTargets_failure_keeps_targets [OF h, of exCtx "constClock exNow" exCached]
    by simp
qed

subsection \<open>The staleness filter\<close>

text \<open>
  Claim C3, as stated, asks that a record with \<open>lastSeen \<le> now - unhealthyThreshold\<close>
  be excluded. The source skips a record only when \<open>now - unhealthyThreshold\<close> is
  strictly after \<open>lastSeen\<close>: with a threshold of 60 s and the clock at 100 s, the record
  last seen at 40 s, whose age is the threshold exactly, is in the snapshot.
\<close>

theorem boundary_record_is_kept:
  "LastSeen exBoundary \<le> exNow - sint (unhealthyThreshold exMgr)
   \<and> exBoundary \<in> set (GetTargets (fst (snd
        (refreshTargets exCtx exClientOk (constClock exNow) exMgr))))"
  by (simp add: refreshTargets_def GetTargets_def constClock_def After_def Add_def
      exMgr_def NewGitlabManager_def exNow_def exClientOk_def exFresh_def exStale_def
      exBoundary_def)

text \<open>
  Claim C3, amended. For every fetched sequence and every clock, a refresh tests each
  record against the reading \<open>now\<close> of \<^verbatim>\<open>time.Now()\<close> made for that record: it
  excludes the record when \<open>lastSeen < now - unhealthyThreshold\<close> and includes it,
  unchanged and in its place in the order of the store, when
  \<open>lastSeen \<ge> now - unhealthyThreshold\<close>, where \<open>now - unhealthyThreshold\<close> is
  \<^verbatim>\<open>now.Add(-unhealthyThreshold)\<close>. A record whose age at its reading equals the
  threshold is included. (\<open>now i\<close> is the reading made for the record at index \<open>i\<close>.)
\<close>

theorem refreshTargets_staleness:
  assumes "FetchFiles g = Inr fetched"
  shows "GetTargets (fst (snd (refreshTargets ctx g now t)))
           = map snd (filter (\<lambda>(i, r). Add (now i) (- unhealthyThreshold t) \<le> LastSeen r)
                             (enumerate 0 fetched))"
  using assms
  by (simp add: refreshTargets_Inr GetTargets_def healthyLoop_any_clock healthy_test)

text \<open>
  At a concrete input, threshold 60 s and the store returning the records seen 10 s,
  120 s and exactly 60 s before the instant 100 s. With a clock that advances by a
  nanosecond per reading only the first is kept: the third is tested two nanoseconds
  after 100 s, when it is older than the threshold. With a clock that stands at 100 s
  the first and the third are kept.
\<close>

theorem refreshTargets_staleness_witness:
  "FetchFiles exClientOk = Inr [exFresh, exStale, exBoundary]
   \<and> GetTargets (fst (snd (refreshTargets exCtx exClientOk exClockTick exMgr))) = [exFresh]
   \<and> GetTargets (fst (snd (refreshTargets exCtx exClientOk (constClock exNow) exMgr)))
       = [exFresh, exBoundary]"
proof -
  have f: "FetchFiles exClientOk = Inr [exFresh, exStale, exBoundary]"
    by (simp add: exClientOk_def)
  have thr: "sint (- unhealthyThreshold exMgr) = - 60000000000"
    by (simp add: exMgr_def NewGitlabManager_def)
  have e: "enumerate 0 [exFresh, exStale, exBoundary]
             = [(0, exFresh), (Suc 0, exStale), (Suc (Suc 0), exBoundary)]"
    by simp
  have a: "GetTargets (fst (snd (refreshTargets exCtx exClientOk exClockTick exMgr)))
             = [exFresh]"
    unfolding refreshTargets_staleness [OF f, of exCtx exClockTick exMgr] e
    by (simp add: Add_def thr exClockTick_def exNow_def exFresh_def exStale_def exBoundary_def)
  have b: "GetTargets (fst (snd (refreshTargets exCtx exClientOk (constClock exNow) exMgr)))
             = [exFresh, exBoundary]"
    unfolding refreshTargets_staleness [OF f, of exCtx "constClock exNow" exMgr] e
    by (simp add: Add_def thr constClock_def exNow_def exFresh_def exStale_def exBoundary_def)
  from f a b show ?thesis by blast
qed

text \<open>
  When the clock reads the same instant for every record, the test is one predicate on
  the records: a fetched record is in the snapshot exactly when it passes it.
\<close>

lemma constClock_snapshot_membership:
  assumes "FetchFiles g = Inr fetched" and "r \<in> set fetched"
  shows "(LastSeen r < Add at (- unhealthyThreshold t) \<longrightarrow>
            r \<notin> set (GetTargets (fst (snd (refreshTargets ctx g (constClock at) t)))))
       \<and> (Add at (- unhealthyThreshold t) \<le> LastSeen r \<longrightarrow>
            r \<in> set (GetTargets (fst (snd (refreshTargets ctx g (constClock at) t)))))"
  using assms
  by (simp add: refreshTargets_Inr GetTargets_def healthyLoop_constClock After_def)

text \<open>
  Claim C4, as stated, makes the new list the filter of the fetched sequence by the
  test \<open>now - lastSeen > unhealthyThreshold\<close>. Two inputs on which the source does
  otherwise. With the threshold \<^verbatim>\<open>math.MinInt64\<close> the negation in the source wraps
  around: the record seen 10 s ago is discarded by that test and is in the new list.
  With a clock that advances by a nanosecond per reading and a store that returns the
  record at the boundary twice, the record passes the test at the first reading and
  fails it at the second: the new list holds it once, which is the filter of the
  fetched sequence by no predicate on records.
\<close>

theorem refresh_is_not_the_stated_filter:
  "discarded_spec (unhealthyThreshold exMgrMin) exNow exFresh
   \<and> exFresh \<in> set (GetTargets (fst (snd
        (refreshTargets exCtx exClientOk (constClock exNow) exMgrMin))))
   \<and> FetchFiles exClientTwice = Inr [exBoundary, exBoundary]
   \<and> \<not> discarded_spec (unhealthyThreshold exMgr) (exClockTick 0) exBoundary
   \<and> discarded_spec (unhealthyThreshold exMgr) (exClockTick 1) exBoundary
   \<and> GetTargets (fst (snd (refreshTargets exCtx exClientTwice exClockTick exMgr)))
       = [exBoundary]"
proof -
  have m: "sint minDuration = - 9223372036854775808" "sint (- minDuration) = - 9223372036854775808"
    by (simp_all add: minDuration_def)
  have a: "discarded_spec (unhealthyThreshold exMgrMin) exNow exFresh"
    by (simp add: discarded_spec_def exMgrMin_def NewGitlabManager_def m exNow_def exFresh_def)
  have b: "exFresh \<in> set (GetTargets (fst (snd
        (refreshTargets exCtx exClientOk (constClock exNow) exMgrMin))))"
    by (simp add: refreshTargets_def GetTargets_def exClientOk_def exMgrMin_def
        NewGitlabManager_def constClock_def After_def Add_def m exNow_def exFresh_def
        exStale_def exBoundary_def)
  have c: "FetchFiles exClientTwice = Inr [exBoundary, exBoundary]"
    by (simp add: exClientTwice_def)
  have d: "\<not> discarded_spec (unhealthyThreshold exMgr) (exClockTick 0) exBoundary"
    by (simp add: discarded_spec_def exMgr_def NewGitlabManager_def exClockTick_def exNow_def
        exBoundary_def)
  have e: "discarded_spec (unhealthyThreshold exMgr) (exClockTick 1) exBoundary"
    by (simp add: discarded_spec_def exMgr_def NewGitlabManager_def exClockTick_def exNow_def
        exBoundary_def)
  have f: "GetTargets (fst (snd (refreshTargets exCtx exClientTwice exClockTick exMgr)))
       = [exBoundary]"
    by (simp add: refreshTargets_def GetTargets_def exClientTwice_def exMgr_def
        NewGitlabManager_def exClockTick_def After_def Add_def exNow_def exBoundary_def)
  from a b c d e f show ?thesis by blast
qed

text \<open>
  Claim C4, amended. For every fetched sequence, every clock and every threshold but
  \<^verbatim>\<open>math.MinInt64\<close>, a successful refresh replaces the list of targets by exactly
  the fetched records that the staleness test does not discard, in the order of the
  store with no re-sorting, where the record at index \<open>i\<close> is discarded when
  \<open>now i - lastSeen > unhealthyThreshold\<close> and \<open>now i\<close> is the reading of
  \<^verbatim>\<open>time.Now()\<close> made for that record: the result is a filter of the indexed input
  sequence. When the clock reads one instant \<open>at\<close> for every record, it is the filter
  of the input sequence by \<open>at - lastSeen > unhealthyThreshold\<close>.
\<close>

theorem refreshTargets_is_filter:
  assumes "FetchFiles g = Inr fetched" and "unhealthyThreshold t \<noteq> minDuration"
  shows "fst (refreshTargets ctx g now t) = None
       \<and> GetTargets (fst (snd (refreshTargets ctx g now t)))
           = map snd (filter (\<lambda>(i, r). \<not> discarded_spec (unhealthyThreshold t) (now i) r)
                             (enumerate 0 fetched))
       \<and> GetTargets (fst (snd (refreshTargets ctx g (constClock at) t)))
           = filter (\<lambda>r. \<not> discarded_spec (unhealthyThreshold t) at r) fetched"
proof -
  note thr = assms(2)
  have a: "fst (refreshTargets ctx g now t) = None"
    using assms(1) by (simp add: refreshTargets_Inr)
  have b: "GetTargets (fst (snd (refreshTargets ctx g now t)))
           = map snd (filter (\<lambda>(i, r). \<not> discarded_spec (unhealthyThreshold t) (now i) r)
                             (enumerate 0 fetched))"
    using assms(1)
    by (simp add: refreshTargets_Inr GetTargets_def healthyLoop_any_clock
        skip_iff_discarded_spec [OF thr])
  have c: "GetTargets (fst (snd (refreshTargets ctx g (constClock at) t)))
           = filter (\<lambda>r. \<not> discarded_spec (unhealthyThreshold t) at r) fetched"
    using assms(1)
    by (simp add: refreshTargets_Inr GetTargets_def healthyLoop_constClock
        skip_iff_discarded_spec [OF thr])
  from a b c show ?thesis by blast
qed

text \<open>
  At a concrete input: the cached list is replaced by the first fetched record when the
  clock advances, and by the first and the third, in the order of the store, when it
  stands at 100 s.
\<close>

theorem refreshTargets_is_filter_witness:
  "FetchFiles exClientOk = Inr [exFresh, exStale, exBoundary]
   \<and> unhealthyThreshold exCached \<noteq> minDuration
   \<and> fst (refreshTargets exCtx exClientOk exClockTick exCached) = None
   \<and> GetTargets (fst (snd (refreshTargets exCtx exClientOk exClockTick exCached)))
       = [exFresh]
   \<and> GetTargets (fst (snd (refreshTargets exCtx exClientOk (constClock exNow) exCached)))
       = [exFresh, exBoundary]"
proof -
  have f: "FetchFiles exClientOk = Inr [exFresh, exStale, exBoundary]"
    by (simp add: exClientOk_def)
  have m: "unhealthyThreshold exCached \<noteq> minDuration"
    by (simp add: exCached_def exMgr_def NewGitlabManager_def minDuration_def)
  have thr: "sint (unhealthyThreshold exCached) = 60000000000"
    by (simp add: exCached_def exMgr_def NewGitlabManager_def)
  have e: "enumerate 0 [exFresh, exStale, exBoundary]
             = [(0, exFresh), (Suc 0, exStale), (Suc (Suc 0), exBoundary)]"
    by simp
  note w = refreshTargets_is_filter [OF f m, of exCtx exClockTick exNow]
  have a: "fst (refreshTargets exCtx exClientOk exClockTick exCached) = None"
    using w by blast
  have b: "GetTargets (fst (snd (refreshTargets exCtx exClientOk exClockTick exCached)))
       = [exFresh]"
    unfolding w [THEN conjunct2, THEN conjunct1] e
    by (simp add: thr discarded_spec_def exClockTick_def exNow_def exFresh_def exStale_def
        exBoundary_def)
  have c: "GetTargets (fst (snd (refreshTargets exCtx exClientOk (constClock exNow) exCached)))
       = [exFresh, exBoundary]"
    unfolding w [THEN conjunct2, THEN conjunct2]
    by (simp add: thr discarded_spec_def exNow_def exFresh_def exStale_def exBoundary_def)
  from f m a b c show ?thesis by blast
qed

subsection \<open>The operations, case by case\<close>

text \<open>
  What each operation returns and what each handler of the loop changes, for the proofs
  below.
\<close>

lemma updateRegistration_cases:
  "updateRegistration ctx g now t = (err, t', calls) \<Longrightarrow>
     (Registered t \<and> t' = t \<and> (\<exists>f. calls = [PutFileCall f] \<and> err = PutFile g f
         \<and> CommitMessage f = ''Updated registration''))
   \<or> (\<not> Registered t \<and> (\<exists>f. calls = [PostFileCall f] \<and> err = PostFile g f
         \<and> CommitMessage f = ''Initial registration''
         \<and> t' = (if err = None then t\<lparr>registered := True\<rparr> else t)))"
  by (auto simp: updateRegistration_def Let_def split: if_splits option.splits)

lemma refreshTargets_registered:
  "registered (fst (snd (refreshTargets ctx g now t))) = registered t"
  by (simp add: refreshTargets_def split: sum.splits)

lemma Shutdown_cases:
  "Shutdown ctx t =
     (if doneChan t < doneCap
      then (Returns None, t\<lparr>registered := False, doneChan := Suc (doneChan t)\<rparr>)
      else (Blocks, t\<lparr>registered := False\<rparr>))"
  by (simp add: Shutdown_def Let_def)

lemma onCtxDone_cases:
  "onCtxDone e s =
     (if ctxErr (envCtx e) = None then (s, [])
      else if doneChan (mgr s) < doneCap
      then (s\<lparr>mgr := (mgr s)\<lparr>registered := False, doneChan := Suc (doneChan (mgr s))\<rparr>\<rparr>,
            [ShutdownCall])
      else (s\<lparr>mgr := (mgr s)\<lparr>registered := False\<rparr>, status := Blocked\<rparr>, [ShutdownCall]))"
  by (simp add: onCtxDone_def Shutdown_cases split: option.splits)

lemma onCheckTimer_props:
  "registered (mgr (fst (onCheckTimer e s))) = registered (mgr s)
   \<and> status (fst (onCheckTimer e s)) = status s
   \<and> snd (onCheckTimer e s) = [Remote FetchFilesCall]
   \<and> registrationTimer (fst (onCheckTimer e s)) = registrationTimer s"
  by (simp add: onCheckTimer_def refreshTargets_def split: sum.splits)

lemma onRegistrationTimer_props:
  "(registered (mgr s) \<longrightarrow> registered (mgr (fst (onRegistrationTimer e s))))
   \<and> status (fst (onRegistrationTimer e s)) = status s
   \<and> checkTimer (fst (onRegistrationTimer e s)) = checkTimer s
   \<and> Remote FetchFilesCall \<notin> set (snd (onRegistrationTimer e s))
   \<and> ShutdownCall \<notin> set (snd (onRegistrationTimer e s))"
  by (simp add: onRegistrationTimer_def updateRegistration_def Registered_def Let_def
      split: option.splits)

lemma select_step_keeps_registered:
  assumes "select_step e c s = Some (s', acts)"
    and "registered (mgr s)" and "\<not> registered (mgr s')"
  shows "c = CaseCtxDone \<and> acts = [ShutdownCall]"
proof (cases c)
  case CaseCtxDone
  with assms show ?thesis
    by (auto simp: select_step_def onCtxDone_cases split: if_splits)
next
  case CaseDone
  with assms show ?thesis
    by (auto simp: select_step_def onDone_def split: if_splits)
next
  case CaseCheckTimer
  with assms onCheckTimer_props [of e s] show ?thesis
    by (auto simp: select_step_def split: if_splits)
next
  case CaseRegistrationTimer
  with assms onRegistrationTimer_props [of s e] show ?thesis
    by (auto simp: select_step_def split: if_splits)
qed



subsection \<open>The flag registered\<close>

text \<open>
  Claim C5. A registration never clears \<^verbatim>\<open>registered\<close>; a registration that fails
  leaves the manager, and so the flag, as it was, so that the next attempt of an
  unregistered instance is again a create; the flag goes from false to true only in a
  call that made the create-style publish (\<^verbatim>\<open>PostFile\<close>, "Initial registration") and
  got \<^verbatim>\<open>nil\<close> from it; a refresh does not touch the flag; \<^verbatim>\<open>Shutdown\<close> clears it;
  and an iteration of the loop that clears it is the one that called \<^verbatim>\<open>Shutdown\<close>.
\<close>

theorem registered_transitions:
  "(Registered t \<longrightarrow> Registered (fst (snd (updateRegistration ctx g now t))))
   \<and> (fst (updateRegistration ctx g now t) \<noteq> None \<longrightarrow>
        fst (snd (updateRegistration ctx g now t)) = t)
   \<and> (\<not> Registered t \<and> Registered (fst (snd (updateRegistration ctx g now t))) \<longrightarrow>
        fst (updateRegistration ctx g now t) = None
        \<and> (\<exists>f. snd (snd (updateRegistration ctx g now t)) = [PostFileCall f]
              \<and> CommitMessage f = ''Initial registration'' \<and> PostFile g f = None))
   \<and> Registered (fst (snd (refreshTargets ctx g clock t))) = Registered t
   \<and> \<not> Registered (snd (Shutdown ctx t))
   \<and> (select_step e c s = Some (s', acts) \<and> Registered (mgr s) \<and> \<not> Registered (mgr s')
        \<longrightarrow> c = CaseCtxDone \<and> acts = [ShutdownCall])"
proof -
  obtain err t' calls where u: "updateRegistration ctx g now t = (err, t', calls)"
    by (cases "updateRegistration ctx g now t") auto
  note cs = updateRegistration_cases [OF u]
  have a: "Registered t \<longrightarrow> Registered (fst (snd (updateRegistration ctx g now t)))"
    using cs by (auto simp: u)
  have b: "fst (updateRegistration ctx g now t) \<noteq> None \<longrightarrow>
        fst (snd (updateRegistration ctx g now t)) = t"
    using cs by (auto simp: u)
  have c: "\<not> Registered t \<and> Registered (fst (snd (updateRegistration ctx g now t))) \<longrightarrow>
        fst (updateRegistration ctx g now t) = None
        \<and> (\<exists>f. snd (snd (updateRegistration ctx g now t)) = [PostFileCall f]
              \<and> CommitMessage f = ''Initial registration'' \<and> PostFile g f = None)"
    using cs by (auto simp: u split: if_splits)
  have d: "Registered (fst (snd (refreshTargets ctx g clock t))) = Registered t"
    by (simp add: Registered_def refreshTargets_registered)
  have e: "\<not> Registered (snd (Shutdown ctx t))"
    by (simp add: Registered_def Shutdown_cases)
  have f: "select_step e c s = Some (s', acts) \<and> Registered (mgr s) \<and> \<not> Registered (mgr s')
        \<longrightarrow> c = CaseCtxDone \<and> acts = [ShutdownCall]"
    using select_step_keeps_registered [of e c s s' acts] by (simp add: Registered_def)
  from a b c d e f show ?thesis by blast
qed

text \<open>
  At concrete inputs: a registered instance whose update fails stays registered; an
  unregistered instance whose create fails is unchanged; one whose create succeeds is
  registered; the loop of a registered instance clears the flag when it calls
  \<^verbatim>\<open>Shutdown\<close> after the context is cancelled.
\<close>

theorem registered_transitions_witness:
  "Registered exCached
   \<and> Registered (fst (snd (updateRegistration exCtx exClientDown exNow exCached)))
   \<and> fst (updateRegistration exCtx exClientDown exNow exMgr) \<noteq> None
   \<and> fst (snd (updateRegistration exCtx exClientDown exNow exMgr)) = exMgr
   \<and> \<not> Registered exMgr
   \<and> Registered (fst (snd (updateRegistration exCtx exClientOk exNow exMgr)))
   \<and> fst (updateRegistration exCtx exClientOk exNow exMgr) = None
   \<and> select_step exEnvCancelled CaseCtxDone exLoopCached =
       Some (exLoopCached\<lparr>mgr := exCached\<lparr>registered := False, doneChan := 1\<rparr>\<rparr>,
             [ShutdownCall])
   \<and> Registered (mgr exLoopCached)
   \<and> \<not> Registered (mgr (exLoopCached\<lparr>mgr := exCached\<lparr>registered := False, doneChan := 1\<rparr>\<rparr>))"
proof -
  have r1: "Registered exCached"
    by (simp add: Registered_def exCached_def)
  have r2: "\<not> Registered exMgr"
    by (simp add: Registered_def exMgr_def NewGitlabManager_def)
  have f1: "fst (updateRegistration exCtx exClientDown exNow exMgr) \<noteq> None"
    using r2 by (simp add: updateRegistration_def exClientDown_def Let_def)
  have f2: "Registered (fst (snd (updateRegistration exCtx exClientOk exNow exMgr)))"
    using r2 by (simp add: updateRegistration_def exClientOk_def Let_def Registered_def)
  have st: "select_step exEnvCancelled CaseCtxDone exLoopCached =
       Some (exLoopCached\<lparr>mgr := exCached\<lparr>registered := False, doneChan := 1\<rparr>\<rparr>,
             [ShutdownCall])"
    by (simp add: select_step_def caseReady_def onCtxDone_cases doneCap_def
        exEnvCancelled_def exCancelled_def exLoopCached_def Reconcile_start_def
        exCached_def exMgr_def NewGitlabManager_def)
  have r3: "Registered (mgr exLoopCached)"
    using r1 by (simp add: exLoopCached_def Reconcile_start_def)
  have r4: "\<not> Registered (mgr (exLoopCached\<lparr>mgr := exCached\<lparr>registered := False, doneChan := 1\<rparr>\<rparr>))"
    by (simp add: Registered_def)
  have w1: "Registered (fst (snd (updateRegistration exCtx exClientDown exNow exCached)))"
    using r1 registered_transitions [of exCached exCtx exClientDown exNow] by blast
  have w2: "fst (snd (updateRegistration exCtx exClientDown exNow exMgr)) = exMgr"
    using f1 registered_transitions [of exMgr exCtx exClientDown exNow] by blast
  have w3: "fst (updateRegistration exCtx exClientOk exNow exMgr) = None"
    using r2 f2 registered_transitions [of exMgr exCtx exClientOk exNow] by blast
  show ?thesis
    using r1 w1 f1 w2 r2 f2 w3 st r3 r4 by blast
qed

subsection \<open>Shutdown never fails\<close>




subsection \<open>Two registrations in a row\<close>

text \<open>
  Claim C6. From an unregistered manager, two calls of \<^verbatim>\<open>updateRegistration\<close> in
  sequence, the client succeeding both times, make exactly one create-style publish
  (\<^verbatim>\<open>PostFile\<close> with the commit message "Initial registration") and then exactly one
  update-style publish (\<^verbatim>\<open>PutFile\<close> with the commit message "Updated registration");
  both return \<^verbatim>\<open>nil\<close>, and \<^verbatim>\<open>Registered()\<close> is true after the first call and after
  the second.
\<close>

theorem updateRegistration_twice:
  assumes "\<not> Registered t" and "\<forall>f. PostFile g1 f = None" and "\<forall>f. PutFile g2 f = None"
  shows "updateRegistration ctx g1 now1 t =
           (None, t\<lparr>registered := True\<rparr>,
            [PostFileCall \<lparr>Branch = ''main'', AuthorEmail = name t @ ''@sparrow'',
               AuthorName = name t, CommitMessage = ''Initial registration'',
               Content = \<lparr>Url = ''https://'' @ name t, LastSeen = now1\<rparr>\<rparr>])
       \<and> Registered (t\<lparr>registered := True\<rparr>)
       \<and> updateRegistration ctx g2 now2 (t\<lparr>registered := True\<rparr>) =
           (None, t\<lparr>registered := True\<rparr>,
            [PutFileCall \<lparr>Branch = ''main'', AuthorEmail = name t @ ''@sparrow'',
               AuthorName = name t, CommitMessage = ''Updated registration'',
               Content = \<lparr>Url = ''https://'' @ name t, LastSeen = now2\<rparr>\<rparr>])"
  using assms by (simp add: updateRegistration_def Registered_def Let_def)

text \<open>At a concrete input: the fresh manager and the client that answers.\<close>

theorem updateRegistration_twice_witness:
  "\<not> Registered exMgr
   \<and> (\<forall>f. PostFile exClientOk f = None)
   \<and> (\<forall>f. PutFile exClientOk f = None)
   \<and> updateRegistration exCtx exClientOk 300000000000 exMgr =
       (None, exMgr\<lparr>registered := True\<rparr>,
        [PostFileCall \<lparr>Branch = ''main'', AuthorEmail = name exMgr @ ''@sparrow'',
           AuthorName = name exMgr, CommitMessage = ''Initial registration'',
           Content = \<lparr>Url = ''https://'' @ name exMgr, LastSeen = 300000000000\<rparr>\<rparr>])
   \<and> updateRegistration exCtx exClientOk 600000000000 (exMgr\<lparr>registered := True\<rparr>) =
       (None, exMgr\<lparr>registered := True\<rparr>,
        [PutFileCall \<lparr>Branch = ''main'', AuthorEmail = name exMgr @ ''@sparrow'',
           AuthorName = name exMgr, CommitMessage = ''Updated registration'',
           Content = \<lparr>Url = ''https://'' @ name exMgr, LastSeen = 600000000000\<rparr>\<rparr>])
   \<and> Registered (exMgr\<lparr>registered := True\<rparr>)"
proof -
  have r: "\<not> Registered exMgr"
    by (simp add: Registered_def exMgr_def NewGitlabManager_def)
  have po: "\<forall>f. PostFile exClientOk f = None"
    and pu: "\<forall>f. PutFile exClientOk f = None"
    by (simp_all add: exClientOk_def)
  note w = updateRegistration_twice [OF r po pu, of exCtx 300000000000 600000000000]
  show ?thesis
    using r po pu w by blast
qed

subsection \<open>A timer that is not reset\<close>

text \<open>
  An iteration whose refresh or registration fails leaves its timer at \<open>None\<close>, and
  the case of a timer at \<open>None\<close> is never ready again: in no later run does the loop
  fetch the files, or publish its registration, again.
\<close>

lemma timerReady_None: "timerReady at None = False"
  by (simp add: timerReady_def)

lemma failed_refresh_unarms_checkTimer:
  assumes "select_step e CaseCheckTimer s = Some (s', acts)"
    and "FetchFiles (client e) = Inl err"
  shows "s' = s\<lparr>checkTimer := None\<rparr> \<and> acts = [Remote FetchFilesCall]"
  using assms
  by (auto simp: select_step_def onCheckTimer_def refreshTargets_def split: if_splits)

lemma failed_registration_unarms_registrationTimer:
  assumes "select_step e CaseRegistrationTimer s = Some (s', acts)"
    and "fst (updateRegistration (envCtx e) (client e) (timeNow e 0) (mgr s)) = Some err"
  shows "s' = s\<lparr>registrationTimer := None\<rparr>"
proof -
  obtain t' calls where
    u: "updateRegistration (envCtx e) (client e) (timeNow e 0) (mgr s) = (Some err, t', calls)"
    using assms(2) by (cases "updateRegistration (envCtx e) (client e) (timeNow e 0) (mgr s)") auto
  from updateRegistration_cases [OF u] have "t' = mgr s"
    by (auto split: if_splits)
  with assms(1) u show ?thesis
    by (auto simp: select_step_def onRegistrationTimer_def split: if_splits)
qed

lemma select_step_checkTimer_None:
  assumes "select_step e c s = Some (s', acts)" and "checkTimer s = None"
  shows "checkTimer s' = None \<and> Remote FetchFilesCall \<notin> set acts"
proof (cases c)
  case CaseCtxDone
  with assms show ?thesis
    by (auto simp: select_step_def onCtxDone_cases split: if_splits)
next
  case CaseDone
  with assms show ?thesis
    by (auto simp: select_step_def onDone_def split: if_splits)
next
  case CaseCheckTimer
  with assms show ?thesis
    by (simp add: select_step_def caseReady_def timerReady_None)
next
  case CaseRegistrationTimer
  with assms onRegistrationTimer_props [of s e] show ?thesis
    by (auto simp: select_step_def split: if_splits)
qed

lemma checkTimer_never_fires_again:
  "checkTimer s = None \<Longrightarrow> run sched s = Some (s', acts) \<Longrightarrow>
   checkTimer s' = None \<and> Remote FetchFilesCall \<notin> set acts"
proof (induction sched arbitrary: s acts)
  case Nil
  then show ?case by simp
next
  case (Cons x sched)
  obtain e c where x: "x = (e, c)" by (cases x)
  from Cons.prems(2) obtain s1 a1 a2 where
    st: "select_step e c s = Some (s1, a1)" and rn: "run sched s1 = Some (s', a2)"
    and ac: "acts = a1 @ a2"
    by (auto simp: x split: option.splits)
  from select_step_checkTimer_None [OF st Cons.prems(1)]
  have n1: "checkTimer s1 = None" and c1: "Remote FetchFilesCall \<notin> set a1" by simp_all
  from Cons.IH [OF n1 rn] c1 ac show ?case by simp
qed

lemma select_step_registrationTimer_None:
  assumes "select_step e c s = Some (s', acts)" and "registrationTimer s = None"
  shows "registrationTimer s' = None
       \<and> (\<forall>f. Remote (PutFileCall f) \<notin> set acts \<and> Remote (PostFileCall f) \<notin> set acts)"
proof (cases c)
  case CaseCtxDone
  with assms show ?thesis
    by (auto simp: select_step_def onCtxDone_cases split: if_splits)
next
  case CaseDone
  with assms show ?thesis
    by (auto simp: select_step_def onDone_def split: if_splits)
next
  case CaseCheckTimer
  with assms onCheckTimer_props [of e s] show ?thesis
    by (auto simp: select_step_def split: if_splits)
next
  case CaseRegistrationTimer
  with assms show ?thesis
    by (simp add: select_step_def caseReady_def timerReady_None)
qed

lemma registrationTimer_never_fires_again:
  "registrationTimer s = None \<Longrightarrow> run sched s = Some (s', acts) \<Longrightarrow>
   registrationTimer s' = None
   \<and> (\<forall>f. Remote (PutFileCall f) \<notin> set acts \<and> Remote (PostFileCall f) \<notin> set acts)"
proof (induction sched arbitrary: s acts)
  case Nil
  then show ?case by simp
next
  case (Cons x sched)
  obtain e c where x: "x = (e, c)" by (cases x)
  from Cons.prems(2) obtain s1 a1 a2 where
    st: "select_step e c s = Some (s1, a1)" and rn: "run sched s1 = Some (s', a2)"
    and ac: "acts = a1 @ a2"
    by (auto simp: x split: option.splits)
  note h = select_step_registrationTimer_None [OF st Cons.prems(1)]
  from h have n1: "registrationTimer s1 = None" by simp
  from Cons.IH [OF n1 rn] h ac show ?case by simp
qed

lemma select_step_stopped:
  "status s \<noteq> Running \<Longrightarrow> select_step e c s = None"
  by (simp add: select_step_def)

text \<open>
  Claim C1 says that after a failed refresh or registration the timer is rearmed as it
  is on success. The source leaves the iteration with \<^verbatim>\<open>continue\<close> before it reaches
  \<^verbatim>\<open>Reset\<close>. At the instance started at 0: the refresh at 30 s with the client down
  leaves the loop running with the check timer at \<open>None\<close>, whose case no environment
  makes ready again, where the same refresh with the client up rearms the timer for
  61 s; and the registration at 300 s with the client down does the same to the
  registration timer.
\<close>

theorem failed_refresh_is_not_retried:
  "select_step exEnvDown CaseCheckTimer exLoop
     = Some (exLoop\<lparr>checkTimer := None\<rparr>, [Remote FetchFilesCall])
   \<and> status (exLoop\<lparr>checkTimer := None\<rparr>) = Running
   \<and> (\<forall>e. select_step e CaseCheckTimer (exLoop\<lparr>checkTimer := None\<rparr>) = None)
   \<and> select_step exEnvOk CaseCheckTimer exLoop
     = Some (exLoop\<lparr>mgr := exMgr\<lparr>targets := [exFresh, exStale, exBoundary]\<rparr>,
                   checkTimer := Some 61000000000\<rparr>, [Remote FetchFilesCall])
   \<and> select_step exEnvDownLate CaseRegistrationTimer exLoop
     = Some (exLoop\<lparr>registrationTimer := None\<rparr>,
             [Remote (PostFileCall
                \<lparr>Branch = ''main'', AuthorEmail = ''sparrow.telekom.com@sparrow'',
                 AuthorName = ''sparrow.telekom.com'', CommitMessage = ''Initial registration'',
                 Content = \<lparr>Url = ''https://sparrow.telekom.com'',
                            LastSeen = 300000000000\<rparr>\<rparr>)])
   \<and> (\<forall>e. select_step e CaseRegistrationTimer (exLoop\<lparr>registrationTimer := None\<rparr>) = None)"
proof -
  have a: "select_step exEnvDown CaseCheckTimer exLoop
     = Some (exLoop\<lparr>checkTimer := None\<rparr>, [Remote FetchFilesCall])"
    by (simp add: select_step_def caseReady_def timerReady_def onCheckTimer_def
        refreshTargets_def exEnvDown_def exClientDown_def exLoop_def Reconcile_start_def
        NewTimer_def Add_def exMgr_def NewGitlabManager_def)
  have b: "status (exLoop\<lparr>checkTimer := None\<rparr>) = Running"
    by (simp add: exLoop_def Reconcile_start_def)
  have c: "\<forall>e. select_step e CaseCheckTimer (exLoop\<lparr>checkTimer := None\<rparr>) = None"
    by (simp add: select_step_def caseReady_def timerReady_None)
  have d: "select_step exEnvOk CaseCheckTimer exLoop
     = Some (exLoop\<lparr>mgr := exMgr\<lparr>targets := [exFresh, exStale, exBoundary]\<rparr>,
                   checkTimer := Some 61000000000\<rparr>, [Remote FetchFilesCall])"
    by (simp add: select_step_def caseReady_def timerReady_def onCheckTimer_def
        refreshTargets_def exEnvOk_def exClientOk_def exLoop_def Reconcile_start_def
        NewTimer_def Reset_def Add_def After_def constClock_def exMgr_def
        NewGitlabManager_def exFresh_def exStale_def exBoundary_def)
  have e: "select_step exEnvDownLate CaseRegistrationTimer exLoop
     = Some (exLoop\<lparr>registrationTimer := None\<rparr>,
             [Remote (PostFileCall
                \<lparr>Branch = ''main'', AuthorEmail = ''sparrow.telekom.com@sparrow'',
                 AuthorName = ''sparrow.telekom.com'', CommitMessage = ''Initial registration'',
                 Content = \<lparr>Url = ''https://sparrow.telekom.com'',
                            LastSeen = 300000000000\<rparr>\<rparr>)])"
    by (simp add: select_step_def caseReady_def timerReady_def onRegistrationTimer_def
        updateRegistration_def Registered_def Let_def constClock_def
        exEnvDownLate_def exClientDown_def exLoop_def Reconcile_start_def
        NewTimer_def Add_def exMgr_def NewGitlabManager_def)
  have f: "\<forall>e. select_step e CaseRegistrationTimer (exLoop\<lparr>registrationTimer := None\<rparr>) = None"
    by (simp add: select_step_def caseReady_def timerReady_None)
  from a b c d e f show ?thesis by blast
qed

subsection \<open>Cancellation\<close>

text \<open>
  Claim C8 says that on cancellation the loop calls \<^verbatim>\<open>Shutdown\<close> once and terminates.
  In the source a \<^verbatim>\<open>Shutdown\<close> that returns \<^verbatim>\<open>nil\<close> is followed by the next
  iteration, where the case of \<^verbatim>\<open>ctx.Done()\<close> is ready again, beside the case of
  \<^verbatim>\<open>done\<close>. When the \<^verbatim>\<open>select\<close> statement takes it a second time, the loop calls
  \<^verbatim>\<open>Shutdown\<close> a second time, whose send on the full channel blocks: the loop has
  called \<^verbatim>\<open>Shutdown\<close> twice and never returns.
\<close>

theorem cancelled_context_calls_Shutdown_twice:
  "select_step exEnvCancelled CaseCtxDone exLoop = Some (exLoopShut, [ShutdownCall])
   \<and> status exLoopShut = Running
   \<and> caseReady exEnvCancelled CaseCtxDone exLoopShut
   \<and> run [(exEnvCancelled, CaseCtxDone), (exEnvCancelled, CaseCtxDone)] exLoop
       = Some (exLoopShut\<lparr>status := Blocked\<rparr>, [ShutdownCall, ShutdownCall])
   \<and> (\<forall>e c. select_step e c (exLoopShut\<lparr>status := Blocked\<rparr>) = None)"
proof -
  have sh: "exShut = exMgr\<lparr>doneChan := 1\<rparr>"
    by (simp add: exShut_def Shutdown_cases doneCap_def exMgr_def NewGitlabManager_def)
  have a: "select_step exEnvCancelled CaseCtxDone exLoop = Some (exLoopShut, [ShutdownCall])"
    by (simp add: select_step_def caseReady_def onCtxDone_cases doneCap_def sh
        exEnvCancelled_def exCancelled_def exLoop_def exLoopShut_def
        Reconcile_start_def exMgr_def NewGitlabManager_def)
  have b: "status exLoopShut = Running"
    by (simp add: exLoopShut_def exLoop_def Reconcile_start_def)
  have c: "caseReady exEnvCancelled CaseCtxDone exLoopShut"
    by (simp add: caseReady_def exEnvCancelled_def exCancelled_def)
  have d: "select_step exEnvCancelled CaseCtxDone exLoopShut
       = Some (exLoopShut\<lparr>status := Blocked\<rparr>, [ShutdownCall])"
    using b c
    by (simp add: select_step_def onCtxDone_cases doneCap_def sh
        exEnvCancelled_def exCancelled_def exLoop_def exLoopShut_def
        Reconcile_start_def exMgr_def NewGitlabManager_def)
  have e: "run [(exEnvCancelled, CaseCtxDone), (exEnvCancelled, CaseCtxDone)] exLoop
       = Some (exLoopShut\<lparr>status := Blocked\<rparr>, [ShutdownCall, ShutdownCall])"
    by (simp add: a d)
  have f: "\<forall>e c. select_step e c (exLoopShut\<lparr>status := Blocked\<rparr>) = None"
    by (simp add: select_step_stopped)
  from a b c e f show ?thesis by blast
qed

subsection \<open>The signal on done\<close>




end
